theory Spec2Isabelle
  imports Main "HOL-Library.Sublist" "HOL-Library.Multiset"
begin

section \<open>Python values\<close>

text \<open>
  A Python \<^verbatim>\<open>str\<close> is a sequence of Unicode code points; a code point is a natural
  number. \<open>str_of\<close> reads an ASCII literal.
\<close>

type_synonym pystr = "nat list"

definition str_of :: "string \<Rightarrow> pystr" where
  "str_of s = map of_char s"

text \<open>The exceptions the modelled functions can raise.\<close>

datatype error = TypeError | AttributeError | OverflowError

text \<open>
  A news item is a \<^verbatim>\<open>dict\<close>. A key is absent (\<open>Missing\<close>), present with the value
  \<^verbatim>\<open>None\<close> (\<open>Null\<close>) or present with a value. \<open>dict_get f d\<close> is
  \<^verbatim>\<open>news.get(key, d)\<close>: the default stands in for an absent key only, and the result
  \<open>None\<close> is Python's \<^verbatim>\<open>None\<close>.
\<close>

datatype 'a field = Missing | Null | Value 'a

fun dict_get :: "'a field \<Rightarrow> 'a \<Rightarrow> 'a option" where
  "dict_get Missing d = Some d"
| "dict_get Null d = None"
| "dict_get (Value v) d = Some v"

text \<open>\<^verbatim>\<open>p in s\<close> on strings: \<open>p\<close> occurs in \<open>s\<close> as a contiguous block.\<close>

abbreviation str_in :: "pystr \<Rightarrow> pystr \<Rightarrow> bool" where
  "str_in p s \<equiv> sublist p s"

subsection \<open>The Unicode tables\<close>

text \<open>
  \<^verbatim>\<open>str.lower\<close>, \<^verbatim>\<open>str.strip\<close> and the classes \<^verbatim>\<open>\w\<close>, \<^verbatim>\<open>\s\<close> of \<^verbatim>\<open>re\<close> read
  the Unicode database of the interpreter. On ASCII they are written out here. Beyond ASCII
  the lower-case mapping of a code point (one code point, or two for U+0130), the
  alphanumeric class and the properties Cased and Case_Ignorable are tables of the
  interpreter, not of this repository: they are the parameter \<open>U\<close> of every function that
  lower-cases or classifies text, and every theorem holds for all tables. The white-space
  class is finite and written out in full.
\<close>

record unicode_db =
  lower_cp :: "nat \<Rightarrow> nat list"
  isalnum_cp :: "nat \<Rightarrow> bool"
  cased_cp :: "nat \<Rightarrow> bool"
  case_ignorable_cp :: "nat \<Rightarrow> bool"

definition ascii_lower :: "nat \<Rightarrow> nat" where
  "ascii_lower c = (if 65 \<le> c \<and> c \<le> 90 then c + 32 else c)"

definition lower_of :: "unicode_db \<Rightarrow> nat \<Rightarrow> nat list" where
  "lower_of U c = (if c < 128 then [ascii_lower c] else lower_cp U c)"

text \<open>
  The ASCII letters are cased; apostrophe, full stop, colon, circumflex and grave accent
  are the case-ignorable ASCII characters.
\<close>

definition is_cased :: "unicode_db \<Rightarrow> nat \<Rightarrow> bool" where
  "is_cased U c = (if c < 128 then (65 \<le> c \<and> c \<le> 90) \<or> (97 \<le> c \<and> c \<le> 122)
     else cased_cp U c)"

definition is_case_ignorable :: "unicode_db \<Rightarrow> nat \<Rightarrow> bool" where
  "is_case_ignorable U c = (if c < 128 then c = 39 \<or> c = 46 \<or> c = 58 \<or> c = 94 \<or> c = 96
     else case_ignorable_cp U c)"

text \<open>
  The one rule of \<^verbatim>\<open>str.lower\<close> that looks at the context: a capital sigma (U+03A3)
  becomes the final sigma U+03C2 when, skipping case-ignorable characters, a cased
  character stands before it and none stands after it, and U+03C3 otherwise. \<open>seen\<close> is
  the text in front of the sigma, nearest character first; \<open>rest\<close> is the text behind it.
\<close>

definition final_sigma :: "unicode_db \<Rightarrow> pystr \<Rightarrow> pystr \<Rightarrow> bool" where
  "final_sigma U seen rest =
     ((case dropWhile (is_case_ignorable U) seen of [] \<Rightarrow> False | c # _ \<Rightarrow> is_cased U c)
      \<and> (case dropWhile (is_case_ignorable U) rest of [] \<Rightarrow> True | c # _ \<Rightarrow> \<not> is_cased U c))"

definition lower_at :: "unicode_db \<Rightarrow> pystr \<Rightarrow> nat \<Rightarrow> pystr \<Rightarrow> pystr" where
  "lower_at U seen c rest =
     (if c = 931 then [if final_sigma U seen rest then 962 else 963] else lower_of U c)"

fun lower_from :: "unicode_db \<Rightarrow> pystr \<Rightarrow> pystr \<Rightarrow> pystr" where
  "lower_from U seen [] = []"
| "lower_from U seen (c # rest) = lower_at U seen c rest @ lower_from U (c # seen) rest"

definition py_lower :: "unicode_db \<Rightarrow> pystr \<Rightarrow> pystr" where
  "py_lower U s = lower_from U [] s"

definition isspace :: "nat \<Rightarrow> bool" where
  "isspace c = ((9 \<le> c \<and> c \<le> 13) \<or> (28 \<le> c \<and> c \<le> 32) \<or> c = 133 \<or> c = 160
     \<or> c = 5760 \<or> (8192 \<le> c \<and> c \<le> 8202) \<or> c = 8232 \<or> c = 8233 \<or> c = 8239
     \<or> c = 8287 \<or> c = 12288)"

definition py_strip :: "pystr \<Rightarrow> pystr" where
  "py_strip s = rev (dropWhile isspace (rev (dropWhile isspace s)))"

definition re_word :: "unicode_db \<Rightarrow> nat \<Rightarrow> bool" where
  "re_word U c = (if c < 128
     then (48 \<le> c \<and> c \<le> 57) \<or> (65 \<le> c \<and> c \<le> 90) \<or> (97 \<le> c \<and> c \<le> 122) \<or> c = 95
     else isalnum_cp U c)"

text \<open>The tables used to run the functions on ASCII inputs.\<close>

definition ascii_db :: unicode_db where
  "ascii_db = \<lparr>lower_cp = (\<lambda>c. [c]), isalnum_cp = (\<lambda>c. False),
     cased_cp = (\<lambda>c. False), case_ignorable_cp = (\<lambda>c. False)\<rparr>"

section \<open>Configuration (utils/config.py)\<close>

definition AI_KEYWORDS :: "pystr list" where
  "AI_KEYWORDS = map str_of
    [''AI news'', ''artificial intelligence'', ''ChatGPT'', ''OpenAI'',
     ''Claude'', ''Anthropic'', ''Gemini AI'', ''DeepMind'', ''Sora'',
     ''Stable Diffusion'', ''Midjourney'', ''Runway AI'', ''text-to-video'',
     ''text-to-image'', ''LLM'', ''AI'', ''OpenAI'', ''Anthropic'', ''Google'', ''DeepMind'',
     ''Microsoft'', ''Meta'', ''NVIDIA'', ''Adobe'', ''Stability AI'', ''Runway'', ''Jasper AI'']"

definition EXCLUDE_KEYWORDS :: "pystr list" where
  "EXCLUDE_KEYWORDS = map str_of
    [''paper'', ''research paper'', ''dataset'', ''loss function'',
     ''training method'', ''backpropagation'', ''gradient descent'',
     ''model weights'', ''benchmark'', ''arxiv.org'']"

section \<open>Keyword matcher (utils/filters.py)\<close>

text \<open>
  \<open>contains_ai_keywords\<close>: \<^verbatim>\<open>not text\<close> holds for \<^verbatim>\<open>None\<close> and for the empty string;
  \<^verbatim>\<open>any(k.lower() in text_lower for k in ...)\<close> is \<open>list_ex\<close>.
\<close>

definition contains_ai_keywords :: "unicode_db \<Rightarrow> pystr option \<Rightarrow> bool" where
  "contains_ai_keywords U text =
     (case text of
        None \<Rightarrow> False
      | Some t \<Rightarrow>
          if t = [] then False
          else
            let text_lower = py_lower U t;
                has_ai_keywords = list_ex (\<lambda>keyword. str_in (py_lower U keyword) text_lower) AI_KEYWORDS;
                has_exclude_keywords = list_ex (\<lambda>keyword. str_in (py_lower U keyword) text_lower) EXCLUDE_KEYWORDS
            in has_ai_keywords \<and> \<not> has_exclude_keywords)"

text \<open>
  \<open>extract_keywords_from_text\<close>: the \<^verbatim>\<open>for\<close> loop over the configured list, with
  \<open>found_keywords\<close> as the accumulator; \<^verbatim>\<open>append\<close> adds at the end.
\<close>

fun extract_loop :: "unicode_db \<Rightarrow> pystr \<Rightarrow> pystr list \<Rightarrow> pystr list \<Rightarrow> pystr list" where
  "extract_loop U text_lower [] found_keywords = found_keywords"
| "extract_loop U text_lower (keyword # rest) found_keywords =
     extract_loop U text_lower rest
       (if str_in (py_lower U keyword) text_lower then found_keywords @ [keyword]
        else found_keywords)"

definition extract_keywords_from_text :: "unicode_db \<Rightarrow> pystr option \<Rightarrow> pystr list" where
  "extract_keywords_from_text U text =
     (case text of
        None \<Rightarrow> []
      | Some t \<Rightarrow> if t = [] then [] else extract_loop U (py_lower U t) AI_KEYWORDS [])"

section \<open>Relevance scorer (utils/filters.py)\<close>

definition high_priority :: "pystr list" where
  "high_priority = map str_of
     [''chatgpt'', ''openai'', ''claude'', ''gemini'', ''sora'', ''gpt-4'', ''gpt-5'']"

definition medium_priority :: "pystr list" where
  "medium_priority = map str_of
     [''ai'', ''artificial intelligence'', ''stable diffusion'', ''midjourney'']"

definition low_priority :: "pystr list" where
  "low_priority = map str_of [''machine learning'', ''deep learning'', ''neural network'']"

text \<open>One tier: \<^verbatim>\<open>for keyword in tier: if keyword in text: score += w\<close>.\<close>

fun score_loop :: "pystr \<Rightarrow> int \<Rightarrow> pystr list \<Rightarrow> int \<Rightarrow> int" where
  "score_loop text w [] score = score"
| "score_loop text w (keyword # rest) score =
     score_loop text w rest (if str_in keyword text then score + w else score)"

text \<open>
  The f-string \<^verbatim>\<open>f"{title} {description}"\<close> formats a description that is
  \<^verbatim>\<open>None\<close> as the four letters \<^verbatim>\<open>None\<close>.
\<close>

fun fmt_str :: "pystr option \<Rightarrow> pystr" where
  "fmt_str None = str_of ''None''"
| "fmt_str (Some s) = s"

definition calculate_relevance_score ::
  "unicode_db \<Rightarrow> pystr option \<Rightarrow> pystr option \<Rightarrow> pystr list option \<Rightarrow> int" where
  "calculate_relevance_score U title description keywords =
     (case title of
        None \<Rightarrow> 0
      | Some t \<Rightarrow>
          if t = [] then 0
          else
            let text = py_lower U (t @ [32] @ fmt_str description);
                score = score_loop text 20 high_priority 0;
                score = score_loop text 10 medium_priority score;
                score = score_loop text 5 low_priority score;
                score = (case keywords of
                           None \<Rightarrow> score
                         | Some ks \<Rightarrow>
                             if ks = [] then score
                             else score + min (int (length ks) * 5) 20)
            in min score 100)"

section \<open>News items\<close>

text \<open>
  An instant is counted in microseconds. A \<^verbatim>\<open>datetime\<close> holds its wall-clock fields,
  here the microseconds since \<^verbatim>\<open>datetime.min\<close> (0001-01-01 00:00:00), and a \<^verbatim>\<open>tzinfo\<close>:
  \<open>None\<close> for a naive value, the UTC offset in microseconds for an aware one. The last
  representable microsecond is that of 9999-12-31 23:59:59.999999, day 3652059.
\<close>

record datetime =
  wall_us :: int
  tzinfo :: "int option"

definition datetime_min :: datetime where
  "datetime_min = \<lparr>wall_us = 0, tzinfo = None\<rparr>"

definition MAX_US :: int where
  "MAX_US = 3652059 * 86400 * 1000000 - 1"

text \<open>The keys of the dictionaries the source adapters build, as the core reads them.\<close>

record news_item =
  item_title :: "pystr field"
  item_url :: "pystr field"
  item_source :: "pystr field"
  item_published_date :: "datetime field"
  item_description :: "pystr field"
  item_keywords :: "pystr list field"
  item_relevance_score :: "int field"
  item_content_type :: "pystr field"
  item_duration :: "int field"

section \<open>Recency filter (utils/filters.py)\<close>

text \<open>
  \<^verbatim>\<open>timedelta(hours=h)\<close> raises \<^verbatim>\<open>OverflowError\<close> when its day count leaves
  \<open>\<plusminus>999999999\<close>; \<^verbatim>\<open>datetime - timedelta\<close> raises it when the result leaves the
  representable range. Ordering two datetimes raises \<^verbatim>\<open>TypeError\<close> when one is naive and
  the other aware; two aware values are ordered by their UTC instants.
\<close>

definition timedelta_hours :: "int \<Rightarrow> error + int" where
  "timedelta_hours h =
     (if h div 24 < - 999999999 \<or> 999999999 < h div 24 then Inl OverflowError
      else Inr (h * 3600 * 1000000))"

definition datetime_sub :: "datetime \<Rightarrow> int \<Rightarrow> error + datetime" where
  "datetime_sub d td =
     (if wall_us d - td < 0 \<or> MAX_US < wall_us d - td then Inl OverflowError
      else Inr (d\<lparr>wall_us := wall_us d - td\<rparr>))"

definition datetime_lt :: "datetime \<Rightarrow> datetime \<Rightarrow> error + bool" where
  "datetime_lt a b =
     (case (tzinfo a, tzinfo b) of
        (None, None) \<Rightarrow> Inr (wall_us a < wall_us b)
      | (Some oa, Some ob) \<Rightarrow> Inr (wall_us a - oa < wall_us b - ob)
      | _ \<Rightarrow> Inl TypeError)"

definition datetime_ge :: "datetime \<Rightarrow> datetime \<Rightarrow> error + bool" where
  "datetime_ge a b =
     (case (tzinfo a, tzinfo b) of
        (None, None) \<Rightarrow> Inr (wall_us a \<ge> wall_us b)
      | (Some oa, Some ob) \<Rightarrow> Inr (wall_us a - oa \<ge> wall_us b - ob)
      | _ \<Rightarrow> Inl TypeError)"

text \<open>
  \<open>is_recent_news\<close>. The clock read \<^verbatim>\<open>datetime.now(timezone.utc)\<close> is the input
  \<open>now_us\<close>; a \<^verbatim>\<open>datetime\<close> object is always truthy, so \<^verbatim>\<open>not published_date\<close> holds
  for \<^verbatim>\<open>None\<close> only.
\<close>

definition is_recent_news :: "int \<Rightarrow> datetime option \<Rightarrow> int \<Rightarrow> error + bool" where
  "is_recent_news now_us published_date hours =
     (case published_date of
        None \<Rightarrow> Inr False
      | Some d \<Rightarrow>
          let now = \<lparr>wall_us = now_us, tzinfo = Some 0\<rparr> in
          (case timedelta_hours hours of
             Inl e \<Rightarrow> Inl e
           | Inr td \<Rightarrow>
               (case datetime_sub now td of
                  Inl e \<Rightarrow> Inl e
                | Inr cutoff_time \<Rightarrow>
                    let d' = (if tzinfo d = None then d\<lparr>tzinfo := Some 0\<rparr> else d)
                    in datetime_ge d' cutoff_time)))"

section \<open>Language filter (utils/filters.py)\<close>

text \<open>
  The allow-list of the character class
  \<^verbatim>\<open>[^\w\s\-.,!?()\[\]":;@#$%^&*+=<>/\\|`~]\<close>, as code points, in the order written:
  hyphen, full stop, comma, exclamation and question mark, round and square brackets,
  double quote, colon, semicolon, at, hash, dollar, per cent, caret, ampersand, asterisk,
  plus, equals, less, greater, slash, backslash, bar, backtick, tilde.
\<close>

definition punct_allowed :: "nat list" where
  "punct_allowed = [45, 46, 44, 33, 63, 40, 41, 91, 93, 34, 58, 59, 64, 35, 36, 37, 94, 38,
     42, 43, 61, 60, 62, 47, 92, 124, 96, 126]"

definition is_unwanted :: "unicode_db \<Rightarrow> nat \<Rightarrow> bool" where
  "is_unwanted U c = (\<not> (re_word U c \<or> isspace c \<or> c \<in> set punct_allowed))"

text \<open>
  \<open>is_english_or_russian\<close>. The class of lower-case Cyrillic letters in the first pattern is the range
  U+0430..U+044F together with U+0451. The two
  ratio tests \<^verbatim>\<open>count / total_letters > 0.8\<close> are written over the integers
  (\<open>5 * count > 4 * total\<close>): the floating-point quotient and the double \<^verbatim>\<open>0.8\<close> order
  the same way for every count below \<open>10\<^sup>1\<^sup>5\<close>.
\<close>

definition is_english_or_russian :: "unicode_db \<Rightarrow> pystr option \<Rightarrow> bool" where
  "is_english_or_russian U text =
     (case text of
        None \<Rightarrow> False
      | Some t \<Rightarrow>
          if t = [] then False
          else
            let cyrillic_count =
                  length (filter (\<lambda>c. (1072 \<le> c \<and> c \<le> 1103) \<or> c = 1105) (py_lower U t));
                latin_count = length (filter (\<lambda>c. 97 \<le> c \<and> c \<le> 122) (py_lower U t));
                unwanted_chars = length (filter (is_unwanted U) t);
                total_letters = cyrillic_count + latin_count;
                total_chars = length (filter (\<lambda>c. \<not> isspace c) t)
            in if total_letters = 0 then False
               else if unwanted_chars > 0 then False
               else total_letters \<ge> 3
                    \<and> (5 * cyrillic_count > 4 * total_letters \<or> 5 * latin_count > 4 * total_letters))"

section \<open>Sorting\<close>

text \<open>
  \<^verbatim>\<open>list.sort(key=..., reverse=True)\<close>: a stable sort in descending key order, equal
  keys keeping their input order. It compares keys with \<^verbatim>\<open><\<close>, which may raise; the
  exception leaves the sort. The model inserts each element, from the last to the first,
  in front of the first element whose key is not greater. Every element of a list of two or
  more is compared with another one, as in the interpreter's sort.
\<close>

fun insert_desc :: "('k \<Rightarrow> 'k \<Rightarrow> error + bool) \<Rightarrow> ('a \<Rightarrow> 'k) \<Rightarrow> 'a \<Rightarrow> 'a list \<Rightarrow> error + 'a list" where
  "insert_desc lt key x [] = Inr [x]"
| "insert_desc lt key x (y # ys) =
     (case lt (key x) (key y) of
        Inl e \<Rightarrow> Inl e
      | Inr True \<Rightarrow> (case insert_desc lt key x ys of Inl e \<Rightarrow> Inl e | Inr r \<Rightarrow> Inr (y # r))
      | Inr False \<Rightarrow> Inr (x # y # ys))"

fun sort_reverse :: "('k \<Rightarrow> 'k \<Rightarrow> error + bool) \<Rightarrow> ('a \<Rightarrow> 'k) \<Rightarrow> 'a list \<Rightarrow> error + 'a list" where
  "sort_reverse lt key [] = Inr []"
| "sort_reverse lt key (x # xs) =
     (case sort_reverse lt key xs of Inl e \<Rightarrow> Inl e | Inr r \<Rightarrow> insert_desc lt key x r)"

text \<open>\<^verbatim>\<open><\<close> on the keys: \<^verbatim>\<open>None\<close> is ordered with nothing, not even with itself.\<close>

fun lt_int_key :: "int option \<Rightarrow> int option \<Rightarrow> error + bool" where
  "lt_int_key (Some a) (Some b) = Inr (a < b)"
| "lt_int_key _ _ = Inl TypeError"

fun lt_date_key :: "datetime option \<Rightarrow> datetime option \<Rightarrow> error + bool" where
  "lt_date_key (Some a) (Some b) = datetime_lt a b"
| "lt_date_key _ _ = Inl TypeError"

section \<open>Filter and rank (utils/filters.py)\<close>

definition item_language_ok :: "unicode_db \<Rightarrow> news_item \<Rightarrow> bool" where
  "item_language_ok U news = is_english_or_russian U (dict_get (item_title news) [])"

definition item_score :: "unicode_db \<Rightarrow> news_item \<Rightarrow> int" where
  "item_score U news =
     calculate_relevance_score U (dict_get (item_title news) [])
       (dict_get (item_description news) []) (dict_get (item_keywords news) [])"

fun filter_loop :: "unicode_db \<Rightarrow> int \<Rightarrow> news_item list \<Rightarrow> news_item list \<Rightarrow> news_item list" where
  "filter_loop U min_score [] filtered_news = filtered_news"
| "filter_loop U min_score (news # rest) filtered_news =
     (if \<not> item_language_ok U news then filter_loop U min_score rest filtered_news
      else
        let score = item_score U news in
        if score \<ge> min_score
        then filter_loop U min_score rest
               (filtered_news @ [news\<lparr>item_relevance_score := Value score\<rparr>])
        else filter_loop U min_score rest filtered_news)"

definition relevance_key :: "news_item \<Rightarrow> int option" where
  "relevance_key x = dict_get (item_relevance_score x) 0"

definition filter_news_by_relevance ::
  "unicode_db \<Rightarrow> news_item list \<Rightarrow> int \<Rightarrow> error + news_item list" where
  "filter_news_by_relevance U news_list min_score =
     sort_reverse lt_int_key relevance_key (filter_loop U min_score news_list [])"

section \<open>Deduplicator (utils/filters.py)\<close>

text \<open>
  \<^verbatim>\<open>news.get('title', '').lower()\<close> raises \<^verbatim>\<open>AttributeError\<close> on a title that is
  \<^verbatim>\<open>None\<close>. A URL that is \<^verbatim>\<open>None\<close> is hashable and is a member of the set like any
  other value.
\<close>

fun dedup_loop ::
  "unicode_db \<Rightarrow> news_item list \<Rightarrow> pystr set \<Rightarrow> pystr option set \<Rightarrow> news_item list
     \<Rightarrow> error + news_item list" where
  "dedup_loop U [] seen_titles seen_urls unique_news = Inr unique_news"
| "dedup_loop U (news # rest) seen_titles seen_urls unique_news =
     (case dict_get (item_title news) [] of
        None \<Rightarrow> Inl AttributeError
      | Some t \<Rightarrow>
          let title = py_strip (py_lower U t);
              url = dict_get (item_url news) []
          in if title \<notin> seen_titles \<and> url \<notin> seen_urls
             then dedup_loop U rest (insert title seen_titles) (insert url seen_urls)
                    (unique_news @ [news])
             else dedup_loop U rest seen_titles seen_urls unique_news)"

definition remove_duplicates :: "unicode_db \<Rightarrow> news_item list \<Rightarrow> error + news_item list" where
  "remove_duplicates U news_list = dedup_loop U news_list {} {} []"

section \<open>Orchestrator (main.py)\<close>

definition published_key :: "news_item \<Rightarrow> datetime option" where
  "published_key x = dict_get (item_published_date x) datetime_min"

definition process_news :: "unicode_db \<Rightarrow> news_item list \<Rightarrow> error + news_item list" where
  "process_news U news_list =
     (case remove_duplicates U news_list of
        Inl e \<Rightarrow> Inl e
      | Inr unique_news \<Rightarrow>
          (case filter_news_by_relevance U unique_news 10 of
             Inl e \<Rightarrow> Inl e
           | Inr relevant_news \<Rightarrow> sort_reverse lt_date_key published_key relevant_news))"

section \<open>Digest formatter (utils/filters.py)\<close>

text \<open>The literals of the formatter, as code points.\<close>

definition NO_NEWS :: pystr where
  "NO_NEWS = [128240, 32, 42, 65, 73, 32, 78, 101, 119, 115, 32, 68, 105, 103, 101, 115, 116,
     42, 10, 10, 1053, 1086, 1074, 1086, 1089, 1090, 1077, 1081, 32, 1085, 1077, 32, 1085,
     1072, 1081, 1076, 1077, 1085, 1086, 32, 1079, 1072, 32, 1087, 1086, 1089, 1083, 1077,
     1076, 1085, 1080, 1077, 32, 50, 52, 32, 1095, 1072, 1089, 1072, 46]"

definition header :: "pystr \<Rightarrow> pystr" where
  "header current_date =
     [128240, 32, 60, 98, 62, 65, 73, 32, 78, 101, 119, 115, 32, 68, 105, 103, 101, 115, 116,
      32, 8212, 32] @ current_date @ [60, 47, 98, 62, 10, 10]"

definition default_title :: pystr where
  "default_title = [1041, 1077, 1079, 32, 1079, 1072, 1075, 1086, 1083, 1086, 1074, 1082, 1072]"

definition default_source :: pystr where
  "default_source = [1053, 1077, 1080, 1079, 1074, 1077, 1089, 1090, 1085, 1099, 1081, 32,
     1080, 1089, 1090, 1086, 1095, 1085, 1080, 1082]"

definition item_marker :: pystr where
  "item_marker = [128313, 32]"

definition source_label :: pystr where
  "source_label = [10, 1048, 1089, 1090, 1086, 1095, 1085, 1080, 1082, 58, 32]"

text \<open>\<^verbatim>\<open>emoji_map.get(content_type, default)\<close>.\<close>

definition emoji_map_get :: "pystr \<Rightarrow> pystr" where
  "emoji_map_get content_type =
     (if content_type = str_of ''image'' then [128444, 65039]
      else if content_type = str_of ''video'' then [127909]
      else if content_type = str_of ''text'' then [128221]
      else if content_type = str_of ''link'' then [128279]
      else [128196])"

text \<open>\<^verbatim>\<open>str\<close> of an integer, in decimal.\<close>

function str_nat :: "nat \<Rightarrow> pystr" where
  "str_nat n = (if n < 10 then [48 + n] else str_nat (n div 10) @ [48 + n mod 10])"
  by pat_completeness auto
termination
  by (relation "measure id") auto

declare str_nat.simps [simp del]

definition str_int :: "int \<Rightarrow> pystr" where
  "str_int i = (if i < 0 then 45 # str_nat (nat (- i)) else str_nat (nat i))"

text \<open>\<^verbatim>\<open>xs[:n]\<close>: a negative bound counts from the end.\<close>

definition py_slice_to :: "int \<Rightarrow> 'a list \<Rightarrow> 'a list" where
  "py_slice_to n xs = (if 0 \<le> n then take (nat n) xs else take (length xs - nat (- n)) xs)"

text \<open>\<^verbatim>\<open>sep.join(parts)\<close>.\<close>

fun py_join :: "pystr \<Rightarrow> pystr list \<Rightarrow> pystr" where
  "py_join sep [] = []"
| "py_join sep [p] = p"
| "py_join sep (p # q # ps) = p @ sep @ py_join sep (q # ps)"

text \<open>
  The suffix for a video: \<^verbatim>\<open>duration // 60\<close> minutes and \<^verbatim>\<open>duration % 60\<close> seconds.
\<close>

definition duration_text :: "int \<Rightarrow> pystr" where
  "duration_text duration =
     (let minutes = duration div 60; seconds = duration mod 60
      in if minutes > 0
         then [32, 40] @ str_int minutes @ [1084, 32] @ str_int seconds @ [1089, 41]
         else [32, 40] @ str_int seconds @ [1089, 41])"

text \<open>
  The body of the loop, for one item. \<^verbatim>\<open>'Reddit' in source\<close> raises \<^verbatim>\<open>TypeError\<close> on a
  source that is \<^verbatim>\<open>None\<close>, and \<^verbatim>\<open>duration > 0\<close> on a duration that is \<^verbatim>\<open>None\<close>; the
  second operand of \<^verbatim>\<open>and\<close> is evaluated only when the first holds.
\<close>

definition format_item :: "news_item \<Rightarrow> error + pystr" where
  "format_item news =
     (let title = dict_get (item_title news) default_title;
          url = dict_get (item_url news) [35];
          content_type = dict_get (item_content_type news) [];
          duration = dict_get (item_duration news) 0
      in case dict_get (item_source news) default_source of
           None \<Rightarrow> Inl TypeError
         | Some source \<Rightarrow>
             let content_emoji =
                   (if str_in (str_of ''Reddit'') source
                    then (case content_type of
                            None \<Rightarrow> []
                          | Some ct \<Rightarrow> if ct = [] then [] else emoji_map_get ct)
                    else [])
             in case (if str_in (str_of ''YouTube'') source
                      then (case duration of
                              None \<Rightarrow> Inl TypeError
                            | Some d \<Rightarrow> Inr (if d > 0 then duration_text d else []))
                      else Inr []) of
                  Inl e \<Rightarrow> Inl e
                | Inr duration_info \<Rightarrow>
                    Inr (if content_emoji \<noteq> []
                         then item_marker @ content_emoji @ str_of '' <a href='' @ [39] @ fmt_str url
                              @ [39, 62] @ fmt_str title @ str_of ''</a>'' @ duration_info
                              @ source_label @ source
                         else item_marker @ str_of ''<a href='' @ [39] @ fmt_str url
                              @ [39, 62] @ fmt_str title @ str_of ''</a>'' @ duration_info
                              @ source_label @ source))"

fun format_loop :: "news_item list \<Rightarrow> pystr list \<Rightarrow> error + pystr list" where
  "format_loop [] news_items = Inr news_items"
| "format_loop (news # rest) news_items =
     (case format_item news of
        Inl e \<Rightarrow> Inl e
      | Inr news_item \<Rightarrow> format_loop rest (news_items @ [news_item]))"

text \<open>
  \<open>format_news_for_telegram\<close>. The date \<^verbatim>\<open>datetime.now(timezone.utc).strftime("%d %B %Y")\<close>
  is the input \<open>current_date\<close>.
\<close>

definition format_news_for_telegram :: "pystr \<Rightarrow> news_item list \<Rightarrow> int \<Rightarrow> error + pystr" where
  "format_news_for_telegram current_date news_list max_items =
     (if news_list = [] then Inr NO_NEWS
      else
        let news_list = py_slice_to max_items news_list in
        (case format_loop news_list [] of
           Inl e \<Rightarrow> Inl e
         | Inr news_items \<Rightarrow> Inr (header current_date @ py_join [10] news_items)))"

section \<open>Vocabulary of the properties\<close>

text \<open>A keyword occurs in a text case-insensitively: both are lower-cased first.\<close>

definition ci_in :: "unicode_db \<Rightarrow> pystr \<Rightarrow> pystr \<Rightarrow> bool" where
  "ci_in U keyword text = str_in (py_lower U keyword) (py_lower U text)"

text \<open>The number of keywords of a tier that occur in the combined text.\<close>

definition tier_hits :: "pystr \<Rightarrow> pystr list \<Rightarrow> int" where
  "tier_hits text tier = int (length (filter (\<lambda>keyword. str_in keyword text) tier))"

text \<open>The bonus \<open>min (len(keywords) * 5) 20\<close>; a list that is \<^verbatim>\<open>None\<close> has none.\<close>

definition keyword_bonus :: "pystr list option \<Rightarrow> int" where
  "keyword_bonus keywords =
     (case keywords of None \<Rightarrow> 0 | Some ks \<Rightarrow> min (int (length ks) * 5) 20)"

text \<open>The combined lower-cased text of title and description.\<close>

definition score_text :: "unicode_db \<Rightarrow> pystr \<Rightarrow> pystr option \<Rightarrow> pystr" where
  "score_text U title description = py_lower U (title @ [32] @ fmt_str description)"

text \<open>The UTC instant of a datetime; a naive value is read as UTC.\<close>

definition utc_us :: "datetime \<Rightarrow> int" where
  "utc_us d = wall_us d - (case tzinfo d of None \<Rightarrow> 0 | Some off \<Rightarrow> off)"

text \<open>The dictionary \<^verbatim>\<open>{'title': t, 'url': u}\<close>, every other key absent.\<close>

definition item_of :: "pystr \<Rightarrow> pystr \<Rightarrow> news_item" where
  "item_of t u = \<lparr>item_title = Value t, item_url = Value u, item_source = Missing,
     item_published_date = Missing, item_description = Missing, item_keywords = Missing,
     item_relevance_score = Missing, item_content_type = Missing, item_duration = Missing\<rparr>"

text \<open>What the filter-and-rank stage does to one item: the test, and the annotation.\<close>

definition item_kept :: "unicode_db \<Rightarrow> int \<Rightarrow> news_item \<Rightarrow> bool" where
  "item_kept U min_score news = (item_language_ok U news \<and> min_score \<le> item_score U news)"

definition annotate :: "unicode_db \<Rightarrow> news_item \<Rightarrow> news_item" where
  "annotate U news = news\<lparr>item_relevance_score := Value (item_score U news)\<rparr>"

text \<open>
  The two keys of the deduplicator, for an item whose title is not \<^verbatim>\<open>None\<close>: the
  lower-cased, stripped title (an absent title reads as the empty string) and the URL as it
  is (absent reads as the empty string, \<^verbatim>\<open>None\<close> as itself).
\<close>

definition title_key :: "unicode_db \<Rightarrow> news_item \<Rightarrow> pystr" where
  "title_key U news = py_strip (py_lower U (case item_title news of Value t \<Rightarrow> t | _ \<Rightarrow> []))"

definition url_key :: "news_item \<Rightarrow> pystr option" where
  "url_key news = dict_get (item_url news) []"

text \<open>The relevance an item carries, as the sort reads it (0 when the key is absent).\<close>

definition relevance_of :: "news_item \<Rightarrow> int" where
  "relevance_of news = (case item_relevance_score news of Value s \<Rightarrow> s | _ \<Rightarrow> 0)"

text \<open>The same dictionary with the key \<^verbatim>\<open>'published_date'\<close> set as given.\<close>

definition item_dated :: "pystr \<Rightarrow> pystr \<Rightarrow> datetime field \<Rightarrow> news_item" where
  "item_dated t u d = (item_of t u)\<lparr>item_published_date := d\<rparr>"


section \<open>Lower-casing and the configured keywords\<close>

lemma py_lower_Nil: "py_lower U [] = []"
  by (simp add: py_lower_def)

lemma py_lower_nonempty: "s \<noteq> [] \<Longrightarrow> hd s < 128 \<Longrightarrow> py_lower U s \<noteq> []"
  by (cases s) (simp_all add: py_lower_def lower_at_def lower_of_def)

lemma lower_from_ascii: "\<forall>c\<in>set s. c < 128 \<Longrightarrow> lower_from U seen s = map ascii_lower s"
  by (induction s arbitrary: seen) (simp_all add: lower_at_def lower_of_def)

lemma py_lower_ascii: "\<forall>c\<in>set s. c < 128 \<Longrightarrow> py_lower U s = map ascii_lower s"
  by (simp add: py_lower_def lower_from_ascii)

lemma AI_KEYWORDS_ascii_head: "list_all (\<lambda>k. k \<noteq> [] \<and> hd k < 128) AI_KEYWORDS"
  by code_simp

lemma EXCLUDE_KEYWORDS_ascii_head: "list_all (\<lambda>k. k \<noteq> [] \<and> hd k < 128) EXCLUDE_KEYWORDS"
  by code_simp

lemma AI_KEYWORDS_not_in_empty: "k \<in> set AI_KEYWORDS \<Longrightarrow> \<not> str_in (py_lower U k) []"
  using AI_KEYWORDS_ascii_head py_lower_nonempty[of k U]
  by (auto simp: list_all_iff)


section \<open>Keyword extraction\<close>

lemma extract_loop_filter:
  "extract_loop U txt ks acc = acc @ filter (\<lambda>k. str_in (py_lower U k) txt) ks"
  by (induction ks arbitrary: acc) simp_all

lemma extract_Some:
  "extract_keywords_from_text U (Some t) = filter (\<lambda>k. ci_in U k t) AI_KEYWORDS"
proof (cases "t = []")
  case True
  have "filter (\<lambda>k. ci_in U k []) AI_KEYWORDS = []"
    using AI_KEYWORDS_not_in_empty by (auto simp: filter_empty_conv ci_in_def py_lower_Nil)
  with True show ?thesis by (simp add: extract_keywords_from_text_def)
next
  case False
  then show ?thesis
    by (simp add: extract_keywords_from_text_def extract_loop_filter ci_in_def)
qed

lemma count_list_filter: "count_list (filter P xs) k = (if P k then count_list xs k else 0)"
  by (induction xs) auto

text \<open>
  Claim C3, as amended. \<open>extract_keywords_from_text\<close> returns the entries of the configured
  list \<open>AI_KEYWORDS\<close> that occur case-insensitively in the text, in the order of that list
  and one for each entry of the list: a keyword is reported as many times as the
  configuration lists it, however often it occurs in the text. A text that is \<^verbatim>\<open>None\<close> or
  empty gives the empty list.
\<close>

theorem extract_keywords_filter:
  "extract_keywords_from_text U None = [] \<and>
   extract_keywords_from_text U (Some []) = [] \<and>
   extract_keywords_from_text U (Some t) = filter (\<lambda>k. ci_in U k t) AI_KEYWORDS \<and>
   count_list (extract_keywords_from_text U (Some t)) k
     = (if ci_in U k t then count_list AI_KEYWORDS k else 0)"
  using extract_Some[of U t]
  by (simp add: extract_keywords_from_text_def count_list_filter)

theorem extract_keywords_filter_witness:
  "ci_in ascii_db (str_of ''OpenAI'') (str_of ''OpenAI, OpenAI and OPENAI'') \<and>
   count_list AI_KEYWORDS (str_of ''OpenAI'') = 2 \<and>
   count_list (extract_keywords_from_text ascii_db (Some (str_of ''OpenAI, OpenAI and OPENAI'')))
     (str_of ''OpenAI'') = 2 \<and>
   extract_keywords_from_text ascii_db (Some (str_of ''OpenAI, OpenAI and OPENAI''))
     = [str_of ''OpenAI'', str_of ''AI'', str_of ''OpenAI'']"
proof -
  let ?t = "str_of ''OpenAI, OpenAI and OPENAI''"
  have a: "ci_in ascii_db (str_of ''OpenAI'') ?t" by code_simp
  have b: "count_list AI_KEYWORDS (str_of ''OpenAI'') = 2" by code_simp
  have c: "filter (\<lambda>k. ci_in ascii_db k ?t) AI_KEYWORDS
             = [str_of ''OpenAI'', str_of ''AI'', str_of ''OpenAI'']" by code_simp
  from a b c extract_keywords_filter[of ascii_db ?t "str_of ''OpenAI''"]
  show ?thesis by metis
qed

text \<open>
  Claim C3 as stated (each matching keyword reported exactly once) fails: the configured
  list names \<^verbatim>\<open>OpenAI\<close> twice, and the text \<^verbatim>\<open>OpenAI\<close> is answered with it twice.
\<close>

theorem extract_keywords_duplicate_counterexample:
  "extract_keywords_from_text ascii_db (Some (str_of ''OpenAI''))
     = [str_of ''OpenAI'', str_of ''AI'', str_of ''OpenAI''] \<and>
   \<not> distinct (extract_keywords_from_text ascii_db (Some (str_of ''OpenAI'')))"
  by code_simp

section \<open>Keyword test\<close>

lemma contains_Some:
  "contains_ai_keywords U (Some t) \<longleftrightarrow>
     (\<exists>k\<in>set AI_KEYWORDS. ci_in U k t) \<and> \<not> (\<exists>k\<in>set EXCLUDE_KEYWORDS. ci_in U k t)"
proof (cases "t = []")
  case True
  have "\<not> (\<exists>k\<in>set AI_KEYWORDS. ci_in U k [])"
    using AI_KEYWORDS_not_in_empty by (auto simp: ci_in_def py_lower_Nil)
  with True show ?thesis by (simp add: contains_ai_keywords_def)
next
  case False
  then show ?thesis
    by (simp add: contains_ai_keywords_def list_ex_iff ci_in_def Let_def)
qed

text \<open>
  Claim C6. \<open>contains_ai_keywords\<close> is true exactly when some inclusion keyword occurs
  case-insensitively in the text and no exclusion keyword does; it is false for a text that
  is \<^verbatim>\<open>None\<close> or empty, and false whenever an exclusion keyword occurs.
\<close>

theorem contains_ai_keywords_iff:
  "\<not> contains_ai_keywords U None \<and>
   \<not> contains_ai_keywords U (Some []) \<and>
   (contains_ai_keywords U (Some t) \<longleftrightarrow>
      (\<exists>k\<in>set AI_KEYWORDS. ci_in U k t) \<and> \<not> (\<exists>k\<in>set EXCLUDE_KEYWORDS. ci_in U k t)) \<and>
   ((\<exists>k\<in>set EXCLUDE_KEYWORDS. ci_in U k t) \<longrightarrow> \<not> contains_ai_keywords U (Some t))"
  using contains_Some[of U t] by (simp add: contains_ai_keywords_def)

theorem contains_ai_keywords_iff_witness:
  "str_of ''OpenAI'' \<in> set AI_KEYWORDS \<and>
   ci_in ascii_db (str_of ''OpenAI'') (str_of ''OpenAI research paper on gradient descent'') \<and>
   str_of ''research paper'' \<in> set EXCLUDE_KEYWORDS \<and>
   ci_in ascii_db (str_of ''research paper'') (str_of ''OpenAI research paper on gradient descent'') \<and>
   \<not> contains_ai_keywords ascii_db (Some (str_of ''OpenAI research paper on gradient descent'')) \<and>
   contains_ai_keywords ascii_db (Some (str_of ''OpenAI news''))"
proof -
  let ?t = "str_of ''OpenAI research paper on gradient descent''"
  have a: "str_of ''OpenAI'' \<in> set AI_KEYWORDS" by code_simp
  have b: "ci_in ascii_db (str_of ''OpenAI'') ?t" by code_simp
  have c: "str_of ''research paper'' \<in> set EXCLUDE_KEYWORDS" by code_simp
  have d: "ci_in ascii_db (str_of ''research paper'') ?t" by code_simp
  have e: "ci_in ascii_db (str_of ''OpenAI'') (str_of ''OpenAI news'')" by code_simp
  have f: "list_all (\<lambda>k. \<not> ci_in ascii_db k (str_of ''OpenAI news'')) EXCLUDE_KEYWORDS"
    by code_simp
  from f have g: "\<not> (\<exists>k\<in>set EXCLUDE_KEYWORDS. ci_in ascii_db k (str_of ''OpenAI news''))"
    by (simp add: list_all_iff)
  from c d have "\<not> contains_ai_keywords ascii_db (Some ?t)"
    using contains_ai_keywords_iff[of ascii_db ?t] by blast
  moreover from a e g have "contains_ai_keywords ascii_db (Some (str_of ''OpenAI news''))"
    using contains_ai_keywords_iff[of ascii_db "str_of ''OpenAI news''"] by blast
  ultimately show ?thesis using a b c d by blast
qed

section \<open>Relevance score\<close>

lemma score_loop_hits: "score_loop text w tier s = s + w * tier_hits text tier"
  by (induction tier arbitrary: s) (simp_all add: tier_hits_def algebra_simps)

lemma tier_hits_nonneg: "0 \<le> tier_hits text tier"
  by (simp add: tier_hits_def)

lemma keyword_bonus_nonneg: "0 \<le> keyword_bonus ks"
  by (simp add: keyword_bonus_def split: option.splits)

lemma score_Some_Cons:
  "calculate_relevance_score U (Some (c # cs)) description keywords =
     min (20 * tier_hits (score_text U (c # cs) description) high_priority
          + 10 * tier_hits (score_text U (c # cs) description) medium_priority
          + 5 * tier_hits (score_text U (c # cs) description) low_priority
          + keyword_bonus keywords) 100"
  by (simp add: calculate_relevance_score_def score_loop_hits score_text_def keyword_bonus_def Let_def
      split: option.splits)

lemma score_empty:
  "calculate_relevance_score U None d ks = 0"
  "calculate_relevance_score U (Some []) d ks = 0"
  by (simp_all add: calculate_relevance_score_def)

lemma score_range:
  "0 \<le> calculate_relevance_score U title d ks \<and> calculate_relevance_score U title d ks \<le> 100"
proof (cases title)
  case None
  then show ?thesis by (simp add: score_empty)
next
  case (Some t)
  show ?thesis
  proof (cases t)
    case Nil
    with Some show ?thesis by (simp add: score_empty)
  next
    case (Cons c cs)
    have "0 \<le> 20 * tier_hits (score_text U (c # cs) d) high_priority
          + 10 * tier_hits (score_text U (c # cs) d) medium_priority
          + 5 * tier_hits (score_text U (c # cs) d) low_priority
          + keyword_bonus ks"
      using tier_hits_nonneg keyword_bonus_nonneg
      by (intro add_nonneg_nonneg mult_nonneg_nonneg) simp_all
    with Some Cons show ?thesis by (simp add: score_Some_Cons)
  qed
qed

text \<open>
  Claim C7. The relevance score lies between 0 and 100 for every title, description and
  keyword list. A title that is \<^verbatim>\<open>None\<close> or empty scores 0; otherwise the score is the
  sum of 20 for each high-priority, 10 for each medium-priority and 5 for each low-priority
  keyword that occurs in the combined text, plus the bonus \<open>min (len(keywords) * 5) 20\<close>,
  cut off at 100. No term is negative.
\<close>

theorem relevance_score_bounds:
  "0 \<le> calculate_relevance_score U title description keywords \<and>
   calculate_relevance_score U title description keywords \<le> 100 \<and>
   calculate_relevance_score U None description keywords = 0 \<and>
   calculate_relevance_score U (Some []) description keywords = 0 \<and>
   calculate_relevance_score U (Some (c # cs)) description keywords =
     min (20 * tier_hits (score_text U (c # cs) description) high_priority
          + 10 * tier_hits (score_text U (c # cs) description) medium_priority
          + 5 * tier_hits (score_text U (c # cs) description) low_priority
          + keyword_bonus keywords) 100 \<and>
   0 \<le> tier_hits (score_text U (c # cs) description) high_priority \<and>
   0 \<le> tier_hits (score_text U (c # cs) description) medium_priority \<and>
   0 \<le> tier_hits (score_text U (c # cs) description) low_priority \<and>
   0 \<le> keyword_bonus keywords"
  using score_range[of U title description "keywords"] score_Some_Cons[of U c cs description "keywords"]
    tier_hits_nonneg keyword_bonus_nonneg
  by (simp add: score_empty)

theorem relevance_score_bounds_witness:
  "calculate_relevance_score ascii_db (Some (str_of ''ChatGPT gets new feature'')) (Some [])
     (Some [str_of ''ChatGPT'']) = 25 \<and>
   tier_hits (score_text ascii_db (str_of ''ChatGPT gets new feature'') (Some [])) high_priority = 1 \<and>
   keyword_bonus (Some [str_of ''ChatGPT'']) = 5"
proof -
  let ?t = "str_of ''ChatGPT gets new feature''"
  have t: "?t = 67 # tl ?t" by code_simp
  have h: "tier_hits (score_text ascii_db (67 # tl ?t) (Some [])) high_priority = 1" by code_simp
  have m: "tier_hits (score_text ascii_db (67 # tl ?t) (Some [])) medium_priority = 0" by code_simp
  have l: "tier_hits (score_text ascii_db (67 # tl ?t) (Some [])) low_priority = 0" by code_simp
  have b: "keyword_bonus (Some [str_of ''ChatGPT'']) = 5" by code_simp
  have "calculate_relevance_score ascii_db (Some (67 # tl ?t)) (Some []) (Some [str_of ''ChatGPT'']) = 25"
    using relevance_score_bounds[of ascii_db None "Some []" "Some [str_of ''ChatGPT'']" 67 "tl ?t"]
    by (simp add: h m l b)
  with t h b show ?thesis by simp
qed



subsection \<open>Lower-casing a text that is extended at its end\<close>














section \<open>Recency filter\<close>

text \<open>
  Claim C5. \<open>is_recent_news\<close> answers false for a timestamp that is \<^verbatim>\<open>None\<close>. For any
  other timestamp, with the clock and the cutoff \<open>now - hours\<close> inside the range of
  \<^verbatim>\<open>datetime\<close>, it answers true exactly when the timestamp, a naive one read as UTC, is not
  before the cutoff: a timestamp at the cutoff is recent, one second earlier is not, and
  every timestamp in the future is recent.
\<close>

theorem is_recent_news_window:
  assumes "0 \<le> now" "now \<le> MAX_US"
    and "0 \<le> now - hours * 3600000000" "now - hours * 3600000000 \<le> MAX_US"
  shows "is_recent_news now None hours = Inr False \<and>
    is_recent_news now (Some d) hours = Inr (now - hours * 3600000000 \<le> utc_us d) \<and>
    (utc_us d = now - hours * 3600000000 \<longrightarrow> is_recent_news now (Some d) hours = Inr True) \<and>
    (utc_us d = now - hours * 3600000000 - 1000000 \<longrightarrow>
       is_recent_news now (Some d) hours = Inr False) \<and>
    (0 \<le> hours \<and> now \<le> utc_us d \<longrightarrow> is_recent_news now (Some d) hours = Inr True)"
proof -
  have none: "is_recent_news now None hours = Inr False"
    by (simp add: is_recent_news_def)
  from assms have "- 999999999 \<le> hours div 24" "hours div 24 \<le> 999999999"
    unfolding MAX_US_def by linarith+
  then have td: "timedelta_hours hours = Inr (hours * 3600000000)"
    by (simp add: timedelta_hours_def)
  have sub: "datetime_sub \<lparr>wall_us = now, tzinfo = Some 0\<rparr> (hours * 3600000000)
      = Inr \<lparr>wall_us = now - hours * 3600000000, tzinfo = Some 0\<rparr>"
    using assms by (simp add: datetime_sub_def)
  have main: "is_recent_news now (Some d) hours = Inr (now - hours * 3600000000 \<le> utc_us d)"
    by (cases "tzinfo d")
      (simp_all add: is_recent_news_def td sub datetime_ge_def utc_us_def Let_def)
  from none main show ?thesis by simp
qed

theorem is_recent_news_window_witness:
  "(0::int) \<le> 63929304000000000 \<and> 63929304000000000 \<le> MAX_US \<and>
   (0::int) \<le> 63929304000000000 - 24 * 3600000000 \<and>
   is_recent_news 63929304000000000 None 24 = Inr False \<and>
   is_recent_news 63929304000000000
     (Some \<lparr>wall_us = 63929217600000000, tzinfo = None\<rparr>) 24 = Inr True \<and>
   is_recent_news 63929304000000000
     (Some \<lparr>wall_us = 63929217599000000, tzinfo = None\<rparr>) 24 = Inr False \<and>
   is_recent_news 63929304000000000
     (Some \<lparr>wall_us = 63929318400000000, tzinfo = Some 10800000000\<rparr>) 24 = Inr True"
proof -
  have h: "(0::int) \<le> 63929304000000000" "63929304000000000 \<le> MAX_US"
    "(0::int) \<le> 63929304000000000 - 24 * 3600000000"
    "63929304000000000 - 24 * 3600000000 \<le> MAX_US"
    by (simp_all add: MAX_US_def)
  note w = is_recent_news_window[OF h]
  from w[of "\<lparr>wall_us = 63929217600000000, tzinfo = None\<rparr>"]
  have a: "is_recent_news 63929304000000000
     (Some \<lparr>wall_us = 63929217600000000, tzinfo = None\<rparr>) 24 = Inr True"
    by (simp add: utc_us_def)
  from w[of "\<lparr>wall_us = 63929217599000000, tzinfo = None\<rparr>"]
  have b: "is_recent_news 63929304000000000
     (Some \<lparr>wall_us = 63929217599000000, tzinfo = None\<rparr>) 24 = Inr False"
    by (simp add: utc_us_def)
  from w[of "\<lparr>wall_us = 63929318400000000, tzinfo = Some 10800000000\<rparr>"]
  have c: "is_recent_news 63929304000000000
     (Some \<lparr>wall_us = 63929318400000000, tzinfo = Some 10800000000\<rparr>) 24 = Inr True"
    by (simp add: utc_us_def)
  from w[of "\<lparr>wall_us = 0, tzinfo = None\<rparr>"]
  have n: "is_recent_news 63929304000000000 None 24 = Inr False" by simp
  from h a b c n show ?thesis by simp
qed

section \<open>Language filter\<close>

lemmas lang_defs = item_language_ok_def is_english_or_russian_def str_of_def py_lower_ascii
  ascii_lower_def is_unwanted_def re_word_def isspace_def punct_allowed_def
  item_dated_def item_of_def

lemma unwanted_rejected:
  assumes "c \<in> set t" "is_unwanted U c"
  shows "\<not> is_english_or_russian U (Some t)"
proof -
  from assms have "filter (is_unwanted U) t \<noteq> []"
    by (auto simp: filter_empty_conv)
  then have "0 < length (filter (is_unwanted U) t)" by simp
  then show ?thesis
    by (simp add: is_english_or_russian_def Let_def)
qed

lemma apostrophe_unwanted: "is_unwanted U 39"
  by (simp add: is_unwanted_def re_word_def isspace_def punct_allowed_def)

section \<open>Filter and rank\<close>

lemma filter_loop_map:
  "filter_loop U m xs acc = acc @ map (annotate U) (filter (item_kept U m) xs)"
  by (induction xs arbitrary: acc) (simp_all add: item_kept_def annotate_def Let_def)

lemma insert_desc_insort:
  assumes "\<forall>y\<in>set (x # ys). key y = Some (f y)"
  shows "insert_desc lt_int_key key x ys = Inr (insort_key (\<lambda>n. - f n) x ys)"
  using assms by (induction ys) auto

lemma sort_reverse_sort_key:
  assumes "\<forall>y\<in>set xs. key y = Some (f y)"
  shows "sort_reverse lt_int_key key xs = Inr (sort_key (\<lambda>n. - f n) xs)"
  using assms
proof (induction xs)
  case Nil
  show ?case by simp
next
  case (Cons x xs)
  then have "\<forall>y\<in>set (x # sort_key (\<lambda>n. - f n) xs). key y = Some (f y)" by simp
  from insert_desc_insort[OF this] Cons show ?case by simp
qed

lemma relevance_key_annotate: "relevance_key (annotate U n) = Some (relevance_of (annotate U n))"
  by (simp add: relevance_key_def annotate_def relevance_of_def)

lemma relevance_of_annotate: "relevance_of (annotate U n) = item_score U n"
  by (simp add: annotate_def relevance_of_def)

lemma item_score_annotate: "item_score U (annotate U n) = item_score U n"
  by (simp add: annotate_def item_score_def)

lemma item_title_annotate: "item_title (annotate U n) = item_title n"
  by (simp add: annotate_def)

lemma published_key_annotate: "published_key (annotate U n) = published_key n"
  by (simp add: published_key_def annotate_def)

lemma filter_news_sort_key:
  "filter_news_by_relevance U news_list m
     = Inr (sort_key (\<lambda>n. - relevance_of n) (map (annotate U) (filter (item_kept U m) news_list)))"
  unfolding filter_news_by_relevance_def filter_loop_map append_Nil
  by (rule sort_reverse_sort_key) (auto simp: relevance_key_annotate)

text \<open>
  Claim C8. \<open>filter_news_by_relevance\<close> returns a list. It holds exactly the items whose
  title passes the language filter and whose score is at least \<open>min_score\<close>, each with its
  score recorded: an item that fails the language filter is dropped whatever its score.
  The list is in descending order of the recorded score, and items of equal score are in
  their input order.
\<close>

theorem filter_news_by_relevance_ranked:
  "\<exists>out. filter_news_by_relevance U news_list min_score = Inr out \<and>
     mset out = mset (map (annotate U) (filter (item_kept U min_score) news_list)) \<and>
     sorted_wrt (\<lambda>a b. relevance_of b \<le> relevance_of a) out \<and>
     (\<forall>k. filter (\<lambda>n. relevance_of n = k) out
           = filter (\<lambda>n. relevance_of n = k)
               (map (annotate U) (filter (item_kept U min_score) news_list))) \<and>
     (\<forall>x\<in>set out. relevance_of x = item_score U x \<and> min_score \<le> relevance_of x
        \<and> item_language_ok U x)"
proof -
  let ?kept = "map (annotate U) (filter (item_kept U min_score) news_list)"
  let ?f = "\<lambda>n. - relevance_of n"
  let ?out = "sort_key ?f ?kept"
  have r: "filter_news_by_relevance U news_list min_score = Inr ?out"
    by (rule filter_news_sort_key)
  have a: "mset ?out = mset ?kept" by simp
  have "sorted (map ?f ?out)" by (rule sorted_sort_key)
  then have b: "sorted_wrt (\<lambda>a b. relevance_of b \<le> relevance_of a) ?out"
    by (simp add: sorted_map)
  have c: "filter (\<lambda>n. relevance_of n = k) ?out = filter (\<lambda>n. relevance_of n = k) ?kept" for k
    using sort_key_stable[of ?f "- k" ?kept] by simp
  have d: "\<forall>x\<in>set ?out. relevance_of x = item_score U x \<and> min_score \<le> relevance_of x
        \<and> item_language_ok U x"
    by (auto simp: relevance_of_annotate item_score_annotate item_kept_def
        item_language_ok_def item_title_annotate)
  from r a b c d show ?thesis by blast
qed

theorem filter_news_by_relevance_ranked_witness:
  "filter_news_by_relevance ascii_db
     [item_of (str_of ''AI a'') (str_of ''u1''), item_of (str_of ''Hello world'') (str_of ''u2''),
      item_of (str_of ''ChatGPT'') (str_of ''u3''), item_of (str_of ''AI b'') (str_of ''u4'')] 10
   = Inr [annotate ascii_db (item_of (str_of ''ChatGPT'') (str_of ''u3'')),
          annotate ascii_db (item_of (str_of ''AI a'') (str_of ''u1'')),
          annotate ascii_db (item_of (str_of ''AI b'') (str_of ''u4''))] \<and>
   sorted_wrt (\<lambda>a b. relevance_of b \<le> relevance_of a)
     [annotate ascii_db (item_of (str_of ''ChatGPT'') (str_of ''u3'')),
      annotate ascii_db (item_of (str_of ''AI a'') (str_of ''u1'')),
      annotate ascii_db (item_of (str_of ''AI b'') (str_of ''u4''))] \<and>
   relevance_of (annotate ascii_db (item_of (str_of ''ChatGPT'') (str_of ''u3''))) = 20 \<and>
   relevance_of (annotate ascii_db (item_of (str_of ''AI a'') (str_of ''u1''))) = 10 \<and>
   relevance_of (annotate ascii_db (item_of (str_of ''AI b'') (str_of ''u4''))) = 10"
proof -
  let ?i1 = "item_of (str_of ''AI a'') (str_of ''u1'')"
  let ?i2 = "item_of (str_of ''Hello world'') (str_of ''u2'')"
  let ?i3 = "item_of (str_of ''ChatGPT'') (str_of ''u3'')"
  let ?i4 = "item_of (str_of ''AI b'') (str_of ''u4'')"
  have l: "item_language_ok ascii_db ?i1" "item_language_ok ascii_db ?i2"
    "item_language_ok ascii_db ?i3" "item_language_ok ascii_db ?i4"
    by (simp_all add: lang_defs)
  have s1: "item_score ascii_db ?i1 = 10" by code_simp
  have s2: "item_score ascii_db ?i2 = 0" by code_simp
  have s3: "item_score ascii_db ?i3 = 20" by code_simp
  have s4: "item_score ascii_db ?i4 = 10" by code_simp
  have v: "filter_news_by_relevance ascii_db [?i1, ?i2, ?i3, ?i4] 10
      = Inr [annotate ascii_db ?i3, annotate ascii_db ?i1, annotate ascii_db ?i4]"
    by (simp add: filter_news_sort_key item_kept_def l s1 s2 s3 s4 relevance_of_annotate)
  from filter_news_by_relevance_ranked[of ascii_db "[?i1, ?i2, ?i3, ?i4]" 10] v
  have "sorted_wrt (\<lambda>a b. relevance_of b \<le> relevance_of a)
      [annotate ascii_db ?i3, annotate ascii_db ?i1, annotate ascii_db ?i4]"
    by auto
  with v s1 s3 s4 show ?thesis by (simp add: relevance_of_annotate)
qed

text \<open>
  Claim C10. A text that contains an ASCII apostrophe (code point 39) fails the language
  filter: the apostrophe is no word character, no white space and not in the allow-list.
  So \<open>filter_news_by_relevance\<close> returns no item with such a title, whatever the score.
\<close>

theorem apostrophe_title_dropped:
  assumes "39 \<in> set t"
  shows "\<not> is_english_or_russian U (Some t) \<and>
    (\<exists>out. filter_news_by_relevance U news_list min_score = Inr out \<and>
       (\<forall>x\<in>set out. item_title x \<noteq> Value t))"
proof -
  have lang: "\<not> is_english_or_russian U (Some t)"
    using assms apostrophe_unwanted by (rule unwanted_rejected)
  have "item_title x \<noteq> Value t"
    if "x \<in> set (sort_key (\<lambda>n. - relevance_of n)
                   (map (annotate U) (filter (item_kept U min_score) news_list)))" for x
  proof
    assume eq: "item_title x = Value t"
    from that obtain n where n: "x = annotate U n" "item_kept U min_score n" by auto
    with eq have "item_title n = Value t" by (simp add: item_title_annotate)
    with n(2) lang show False by (simp add: item_kept_def item_language_ok_def)
  qed
  with lang show ?thesis by (simp add: filter_news_sort_key)
qed

theorem apostrophe_title_dropped_witness:
  "39 \<in> set (str_of ''OpenAI'' @ [39] @ str_of ''s new model'') \<and>
   item_score ascii_db
     (item_of (str_of ''OpenAI'' @ [39] @ str_of ''s new model'') (str_of ''https://a'')) = 30 \<and>
   \<not> is_english_or_russian ascii_db (Some (str_of ''OpenAI'' @ [39] @ str_of ''s new model'')) \<and>
   filter_news_by_relevance ascii_db
     [item_of (str_of ''OpenAI'' @ [39] @ str_of ''s new model'') (str_of ''https://a'')] 10
     = Inr []"
proof -
  let ?t = "str_of ''OpenAI'' @ [39] @ str_of ''s new model''"
  have h: "39 \<in> set ?t" by simp
  have s: "item_score ascii_db (item_of ?t (str_of ''https://a'')) = 30" by code_simp
  from apostrophe_title_dropped[OF h, of ascii_db "[]" 0]
  have n: "\<not> is_english_or_russian ascii_db (Some ?t)" by blast
  then have "filter_news_by_relevance ascii_db [item_of ?t (str_of ''https://a'')] 10 = Inr []"
    by (simp add: filter_news_by_relevance_def item_language_ok_def item_of_def)
  with h s n show ?thesis by blast
qed

section \<open>Deduplicator\<close>

lemma dedup_step:
  assumes "item_title x \<noteq> Null"
  shows "dedup_loop U (x # xs) st su acc =
     (if title_key U x \<notin> st \<and> url_key x \<notin> su
      then dedup_loop U xs (insert (title_key U x) st) (insert (url_key x) su) (acc @ [x])
      else dedup_loop U xs st su acc)"
  using assms by (cases "item_title x") (simp_all add: title_key_def url_key_def Let_def)

lemma dedup_loop_subseq:
  assumes "\<forall>n\<in>set xs. item_title n \<noteq> Null"
  shows "\<exists>ks. dedup_loop U xs st su acc = Inr (acc @ ks) \<and> subseq ks xs"
  using assms
proof (induction xs arbitrary: st su acc)
  case Nil
  show ?case by simp
next
  case (Cons x xs)
  then have nx: "item_title x \<noteq> Null" and rest: "\<forall>n\<in>set xs. item_title n \<noteq> Null" by simp_all
  show ?case
  proof (cases "title_key U x \<notin> st \<and> url_key x \<notin> su")
    case True
    from Cons.IH[OF rest, of "insert (title_key U x) st" "insert (url_key x) su" "acc @ [x]"]
    obtain ks where "dedup_loop U xs (insert (title_key U x) st) (insert (url_key x) su) (acc @ [x])
        = Inr ((acc @ [x]) @ ks)" "subseq ks xs" by blast
    with True nx have "dedup_loop U (x # xs) st su acc = Inr (acc @ (x # ks)) \<and> subseq (x # ks) (x # xs)"
      by (simp add: dedup_step del: dedup_loop.simps(2))
    then show ?thesis by blast
  next
    case False
    from Cons.IH[OF rest, of st su acc]
    obtain ks where "dedup_loop U xs st su acc = Inr (acc @ ks)" "subseq ks xs" by blast
    with False nx have "dedup_loop U (x # xs) st su acc = Inr (acc @ ks) \<and> subseq ks (x # xs)"
      by (auto simp: dedup_step simp del: dedup_loop.simps(2))
    then show ?thesis by blast
  qed
qed

lemma dedup_loop_snoc:
  assumes "\<forall>n\<in>set (xs @ [x]). item_title n \<noteq> Null"
    and "st = title_key U ` set acc" "su = url_key ` set acc"
  shows "\<exists>r. dedup_loop U xs st su acc = Inr r \<and>
     dedup_loop U (xs @ [x]) st su acc =
       Inr (if title_key U x \<notin> title_key U ` set r \<and> url_key x \<notin> url_key ` set r
            then r @ [x] else r)"
  using assms
proof (induction xs arbitrary: st su acc)
  case Nil
  then show ?case by (simp add: dedup_step del: dedup_loop.simps(2))
next
  case (Cons y ys)
  then have ny: "item_title y \<noteq> Null" and rest: "\<forall>n\<in>set (ys @ [x]). item_title n \<noteq> Null"
    by simp_all
  show ?case
  proof (cases "title_key U y \<notin> st \<and> url_key y \<notin> su")
    case True
    have "insert (title_key U y) st = title_key U ` set (acc @ [y])"
      "insert (url_key y) su = url_key ` set (acc @ [y])"
      using Cons.prems by auto
    from Cons.IH[OF rest this] True ny show ?thesis
      by (simp add: dedup_step del: dedup_loop.simps(2))
  next
    case False
    from Cons.IH[OF rest Cons.prems(2,3)] False ny show ?thesis
      by (auto simp: dedup_step simp del: dedup_loop.simps(2))
  qed
qed

lemma remove_duplicates_snoc:
  assumes "\<forall>n\<in>set (xs @ [x]). item_title n \<noteq> Null"
  shows "\<exists>r. remove_duplicates U xs = Inr r \<and>
     remove_duplicates U (xs @ [x]) =
       Inr (if title_key U x \<notin> title_key U ` set r \<and> url_key x \<notin> url_key ` set r
            then r @ [x] else r)"
  using dedup_loop_snoc[OF assms, of "{}" U "[]" "{}"] by (simp add: remove_duplicates_def)

lemma remove_duplicates_distinct:
  assumes "\<forall>n\<in>set xs. item_title n \<noteq> Null"
  shows "\<exists>r. remove_duplicates U xs = Inr r \<and> distinct (map (title_key U) r)
           \<and> distinct (map url_key r)"
  using assms
proof (induction xs rule: rev_induct)
  case Nil
  show ?case by (simp add: remove_duplicates_def)
next
  case (snoc x xs)
  then obtain r where r: "remove_duplicates U xs = Inr r" "distinct (map (title_key U) r)"
    "distinct (map url_key r)" by auto
  from remove_duplicates_snoc[OF snoc.prems, of U] r(1)
  have "remove_duplicates U (xs @ [x]) =
       Inr (if title_key U x \<notin> title_key U ` set r \<and> url_key x \<notin> url_key ` set r
            then r @ [x] else r)" by simp
  with r(2,3) show ?case by auto
qed

lemma remove_duplicates_head:
  assumes "\<forall>n\<in>set (y # ys). item_title n \<noteq> Null"
  shows "\<exists>ks. remove_duplicates U (y # ys) = Inr (y # ks)"
proof -
  from assms have ny: "item_title y \<noteq> Null" and rest: "\<forall>n\<in>set ys. item_title n \<noteq> Null"
    by simp_all
  from dedup_loop_subseq[OF rest, of U "{title_key U y}" "{url_key y}" "[y]"]
  obtain ks where "dedup_loop U ys {title_key U y} {url_key y} [y] = Inr ([y] @ ks)" by blast
  with ny show ?thesis
    by (simp add: remove_duplicates_def dedup_step del: dedup_loop.simps(2))
qed

text \<open>
  Claim C4, as amended. On a batch in which no title is \<^verbatim>\<open>None\<close>, \<open>remove_duplicates\<close>
  returns a subsequence of its input (the order is kept) that starts with the first item,
  and it decides each item from the items kept before it: the item is kept exactly when its
  lower-cased, stripped title is the title key of no item kept so far and its URL is the URL
  of no item kept so far; only a kept item records its keys. So the kept items have
  pairwise different title keys and pairwise different URLs, an item that shares its title
  key or its URL (the empty URL included) with an item kept before it is dropped, and of a
  batch of two items that share a key only the first survives.
\<close>

theorem remove_duplicates_first_occurrence:
  assumes "\<forall>n\<in>set (news_list @ [x]). item_title n \<noteq> Null"
    and "item_title a \<noteq> Null" "item_title b \<noteq> Null"
  shows "\<exists>kept. remove_duplicates U news_list = Inr kept \<and> subseq kept news_list \<and>
     (news_list \<noteq> [] \<longrightarrow> kept \<noteq> [] \<and> hd kept = hd news_list) \<and>
     distinct (map (title_key U) kept) \<and> distinct (map url_key kept) \<and>
     remove_duplicates U (news_list @ [x]) =
       Inr (if title_key U x \<notin> title_key U ` set kept \<and> url_key x \<notin> url_key ` set kept
            then kept @ [x] else kept) \<and>
     ((\<exists>k\<in>set kept. title_key U k = title_key U x \<or> url_key k = url_key x) \<longrightarrow>
        remove_duplicates U (news_list @ [x]) = Inr kept) \<and>
     remove_duplicates U [] = Inr [] \<and>
     remove_duplicates U [a, b] =
       Inr (if title_key U a = title_key U b \<or> url_key a = url_key b then [a] else [a, b])"
proof -
  from assms(1) have nl: "\<forall>n\<in>set news_list. item_title n \<noteq> Null" by simp
  from remove_duplicates_snoc[OF assms(1), of U]
  obtain r where r: "remove_duplicates U news_list = Inr r"
    "remove_duplicates U (news_list @ [x]) =
       Inr (if title_key U x \<notin> title_key U ` set r \<and> url_key x \<notin> url_key ` set r
            then r @ [x] else r)"
    by blast
  from dedup_loop_subseq[OF nl, of U "{}" "{}" "[]"] r(1) have s: "subseq r news_list"
    by (simp add: remove_duplicates_def)
  from remove_duplicates_distinct[OF nl, of U] r(1)
  have d: "distinct (map (title_key U) r)" "distinct (map url_key r)" by simp_all
  have h: "r \<noteq> [] \<and> hd r = hd news_list" if "news_list \<noteq> []"
  proof -
    from that obtain y ys where y: "news_list = y # ys" by (cases news_list) auto
    from remove_duplicates_head[of y ys U] nl r(1) show ?thesis unfolding y by auto
  qed
  have dropped: "remove_duplicates U (news_list @ [x]) = Inr r"
    if "\<exists>k\<in>set r. title_key U k = title_key U x \<or> url_key k = url_key x"
  proof -
    from that obtain k where "k \<in> set r"
      "title_key U k = title_key U x \<or> url_key k = url_key x" by blast
    then have "title_key U x \<in> title_key U ` set r \<or> url_key x \<in> url_key ` set r"
      by (metis imageI)
    with r(2) show ?thesis by auto
  qed
  have two: "remove_duplicates U [a, b] =
        Inr (if title_key U a = title_key U b \<or> url_key a = url_key b then [a] else [a, b])"
    using assms(2,3) by (auto simp: remove_duplicates_def dedup_step simp del: dedup_loop.simps(2))
  have e: "remove_duplicates U [] = Inr []" by (simp add: remove_duplicates_def)
  from r s d h dropped two e show ?thesis by blast
qed

theorem remove_duplicates_first_occurrence_witness:
  "item_title (item_of (str_of ''OpenAI launches GPT-5'') (str_of ''https://a'')) \<noteq> Null \<and>
   item_title (item_of (str_of '' openai launches gpt-5 '') (str_of ''https://b'')) \<noteq> Null \<and>
   title_key ascii_db (item_of (str_of ''OpenAI launches GPT-5'') (str_of ''https://a''))
     = title_key ascii_db (item_of (str_of '' openai launches gpt-5 '') (str_of ''https://b'')) \<and>
   url_key (item_of (str_of ''OpenAI launches GPT-5'') (str_of ''https://a''))
     \<noteq> url_key (item_of (str_of '' openai launches gpt-5 '') (str_of ''https://b'')) \<and>
   remove_duplicates ascii_db
     ([item_of (str_of ''OpenAI launches GPT-5'') (str_of ''https://a'')]
        @ [item_of (str_of '' openai launches gpt-5 '') (str_of ''https://b'')])
     = Inr [item_of (str_of ''OpenAI launches GPT-5'') (str_of ''https://a'')] \<and>
   remove_duplicates ascii_db [item_of (str_of ''First'') [], item_of (str_of ''Second'') []]
     = Inr [item_of (str_of ''First'') []]"
proof -
  let ?a = "item_of (str_of ''OpenAI launches GPT-5'') (str_of ''https://a'')"
  let ?b = "item_of (str_of '' openai launches gpt-5 '') (str_of ''https://b'')"
  let ?c = "item_of (str_of ''First'') []"
  let ?d = "item_of (str_of ''Second'') []"
  have h: "\<forall>n\<in>set ([?a] @ [?b]). item_title n \<noteq> Null" by (simp add: item_of_def)
  have hc: "item_title ?c \<noteq> Null" "item_title ?d \<noteq> Null" by (simp_all add: item_of_def)
  have t: "title_key ascii_db ?a = title_key ascii_db ?b" by code_simp
  have u: "url_key ?a \<noteq> url_key ?b" by code_simp
  have e: "url_key ?c = url_key ?d" by (simp add: url_key_def item_of_def)
  have one: "remove_duplicates ascii_db [?a] = Inr [?a]" by code_simp
  from remove_duplicates_first_occurrence[OF h hc, of ascii_db] one t e
  have "remove_duplicates ascii_db ([?a] @ [?b]) = Inr [?a]"
    "remove_duplicates ascii_db [?c, ?d] = Inr [?c]"
    by auto
  with h t u show ?thesis by simp
qed

text \<open>
  Claim C4 as stated fails in its consequences. An item that is dropped records no key: in
  the first batch the second and third items have the same title key and different URLs,
  and the third survives, not the second; in the second batch the third item has an empty
  URL like the second and survives.
\<close>

theorem remove_duplicates_dropped_item_counterexample:
  "title_key ascii_db (item_of (str_of ''Beta'') (str_of ''u1''))
     = title_key ascii_db (item_of (str_of ''beta'') (str_of ''u2'')) \<and>
   remove_duplicates ascii_db
     [item_of (str_of ''Alpha'') (str_of ''u1''), item_of (str_of ''Beta'') (str_of ''u1''),
      item_of (str_of ''beta'') (str_of ''u2'')]
     = Inr [item_of (str_of ''Alpha'') (str_of ''u1''), item_of (str_of ''beta'') (str_of ''u2'')] \<and>
   remove_duplicates ascii_db
     [item_of (str_of ''Topic'') (str_of ''u1''), item_of (str_of ''topic'') [],
      item_of (str_of ''Other'') []]
     = Inr [item_of (str_of ''Topic'') (str_of ''u1''), item_of (str_of ''Other'') []]"
  by code_simp

section \<open>Digest formatter\<close>

lemma header_not_no_news: "header date @ rest \<noteq> NO_NEWS"
  by (simp add: header_def NO_NEWS_def)

lemma format_nonempty:
  "news_list \<noteq> [] \<Longrightarrow> format_news_for_telegram date news_list m \<noteq> Inr NO_NEWS"
  using header_not_no_news
  by (auto simp: format_news_for_telegram_def Let_def split: sum.splits)

text \<open>
  Claim C1, as amended. \<open>format_news_for_telegram\<close> returns the fixed no-news message
  exactly when its input list is empty. When the input is not empty and the truncation to
  the first \<open>max_items\<close> entries leaves nothing, the result is the header alone, with no
  item block.
\<close>

theorem format_no_news_iff:
  "format_news_for_telegram date [] m = Inr NO_NEWS \<and>
   (format_news_for_telegram date news_list m = Inr NO_NEWS \<longleftrightarrow> news_list = []) \<and>
   (news_list \<noteq> [] \<and> py_slice_to m news_list = [] \<longrightarrow>
      format_news_for_telegram date news_list m = Inr (header date))"
  using format_nonempty[of news_list date m]
  by (auto simp: format_news_for_telegram_def)

theorem format_no_news_iff_witness:
  "[item_of (str_of ''OpenAI news'') (str_of ''https://a'')] \<noteq> [] \<and>
   py_slice_to (- 3) [item_of (str_of ''OpenAI news'') (str_of ''https://a'')] = [] \<and>
   format_news_for_telegram (str_of ''03 November 2026'')
     [item_of (str_of ''OpenAI news'') (str_of ''https://a'')] (- 3)
     = Inr (header (str_of ''03 November 2026'')) \<and>
   format_news_for_telegram (str_of ''03 November 2026'') [] 10 = Inr NO_NEWS"
proof -
  let ?x = "item_of (str_of ''OpenAI news'') (str_of ''https://a'')"
  have a: "[?x] \<noteq> []" by simp
  have b: "py_slice_to (- 3) [?x] = []" by (simp add: py_slice_to_def)
  from a b format_no_news_iff[of "str_of ''03 November 2026''" "- 3" "[?x]"]
  have c: "format_news_for_telegram (str_of ''03 November 2026'') [?x] (- 3)
     = Inr (header (str_of ''03 November 2026''))" by blast
  from format_no_news_iff[of "str_of ''03 November 2026''" 10 "[]"]
  have d: "format_news_for_telegram (str_of ''03 November 2026'') [] 10 = Inr NO_NEWS" by blast
  from a b c d show ?thesis by blast
qed

text \<open>
  Claim C1 as stated fails where the truncation empties a list that was not empty: with
  \<open>max_items = 0\<close> one item gives the header, not the no-news message.
\<close>

theorem format_truncated_empty_counterexample:
  "py_slice_to 0 [item_of (str_of ''OpenAI news'') (str_of ''https://a'')] = [] \<and>
   format_news_for_telegram (str_of ''03 November 2026'')
     [item_of (str_of ''OpenAI news'') (str_of ''https://a'')] 0
     = Inr (header (str_of ''03 November 2026'')) \<and>
   format_news_for_telegram (str_of ''03 November 2026'')
     [item_of (str_of ''OpenAI news'') (str_of ''https://a'')] 0 \<noteq> Inr NO_NEWS"
  by (simp add: format_news_for_telegram_def py_slice_to_def header_def NO_NEWS_def)

section \<open>Orchestrator\<close>

text \<open>
  Claim C2 fails on the code. A batch of two relevant items, one dated with an aware
  timestamp as the source adapters produce it and one whose \<^verbatim>\<open>published_date\<close> is
  \<^verbatim>\<open>None\<close>, absent or naive, makes the date sort of \<open>process_news\<close> raise
  \<^verbatim>\<open>TypeError\<close>; a title that is \<^verbatim>\<open>None\<close> makes \<open>remove_duplicates\<close> raise
  \<^verbatim>\<open>AttributeError\<close>.
\<close>

theorem process_news_undated_item_raises:
  "process_news ascii_db
     [item_dated (str_of ''OpenAI news'') (str_of ''https://a'')
        (Value \<lparr>wall_us = 63871286400000000, tzinfo = Some 0\<rparr>),
      item_dated (str_of ''ChatGPT update'') (str_of ''https://b'') Null] = Inl TypeError \<and>
   process_news ascii_db
     [item_dated (str_of ''OpenAI news'') (str_of ''https://a'')
        (Value \<lparr>wall_us = 63871286400000000, tzinfo = Some 0\<rparr>),
      item_dated (str_of ''ChatGPT update'') (str_of ''https://b'') Missing] = Inl TypeError \<and>
   process_news ascii_db
     [item_dated (str_of ''OpenAI news'') (str_of ''https://a'')
        (Value \<lparr>wall_us = 63871286400000000, tzinfo = Some 0\<rparr>),
      item_dated (str_of ''ChatGPT update'') (str_of ''https://b'')
        (Value \<lparr>wall_us = 63871200000000000, tzinfo = None\<rparr>)] = Inl TypeError \<and>
   process_news ascii_db
     [(item_of (str_of ''OpenAI news'') (str_of ''https://a''))\<lparr>item_title := Null\<rparr>]
     = Inl AttributeError"
proof -
  let ?a = "item_dated (str_of ''OpenAI news'') (str_of ''https://a'')
        (Value \<lparr>wall_us = 63871286400000000, tzinfo = Some 0\<rparr>)"
  have la: "item_language_ok ascii_db ?a" by (simp add: lang_defs)
  have sa: "item_score ascii_db ?a = 30" by code_simp
  have ka: "published_key ?a = Some \<lparr>wall_us = 63871286400000000, tzinfo = Some 0\<rparr>"
    by (simp add: published_key_def item_dated_def)
  have tk: "title_key ascii_db (item_dated t u d) = py_strip (py_lower ascii_db t)" for t u d
    by (simp add: title_key_def item_dated_def item_of_def)
  have uk: "url_key (item_dated t u d) = Some u" for t u d
    by (simp add: url_key_def item_dated_def item_of_def)
  have nn: "item_title (item_dated t u d) \<noteq> Null" for t u d
    by (simp add: item_dated_def item_of_def)
  have sc: "item_score ascii_db (item_dated t u d)
              = calculate_relevance_score ascii_db (Some t) (Some []) (Some [])" for t u d
    by (simp add: item_score_def item_dated_def item_of_def)
  have lg: "item_language_ok ascii_db (item_dated t u d) = is_english_or_russian ascii_db (Some t)"
    for t u d
    by (simp add: item_language_ok_def item_dated_def item_of_def)
  have t2: "py_strip (py_lower ascii_db (str_of ''ChatGPT update''))
              \<noteq> py_strip (py_lower ascii_db (str_of ''OpenAI news''))" by code_simp
  have u2: "str_of ''https://b'' \<noteq> str_of ''https://a''" by code_simp
  have l2: "is_english_or_russian ascii_db (Some (str_of ''ChatGPT update''))"
    by (simp add: lang_defs)
  have s2: "calculate_relevance_score ascii_db (Some (str_of ''ChatGPT update'')) (Some []) (Some [])
              = 20" by code_simp
  have run: "process_news ascii_db [?a, item_dated (str_of ''ChatGPT update'') (str_of ''https://b'') d]
      = Inl TypeError"
    if k: "lt_date_key (published_key ?a)
             (published_key (item_dated (str_of ''ChatGPT update'') (str_of ''https://b'') d))
           = Inl TypeError" for d
  proof -
    let ?b = "item_dated (str_of ''ChatGPT update'') (str_of ''https://b'') d"
    have d: "remove_duplicates ascii_db [?a, ?b] = Inr [?a, ?b]"
      by (simp add: remove_duplicates_def dedup_step nn tk uk t2 u2 del: dedup_loop.simps(2))
    have lb: "item_language_ok ascii_db ?b" by (simp add: lg l2)
    have sb: "item_score ascii_db ?b = 20" by (simp add: sc s2)
    have f: "filter_news_by_relevance ascii_db [?a, ?b] 10
               = Inr [annotate ascii_db ?a, annotate ascii_db ?b]"
      by (simp add: filter_news_sort_key item_kept_def la lb sa sb relevance_of_annotate)
    have s: "sort_reverse lt_date_key published_key [annotate ascii_db ?a, annotate ascii_db ?b]
               = Inl TypeError"
      by (simp add: published_key_annotate k)
    show ?thesis by (simp only: process_news_def d f s sum.case)
  qed
  have n: "process_news ascii_db
     [(item_of (str_of ''OpenAI news'') (str_of ''https://a''))\<lparr>item_title := Null\<rparr>]
     = Inl AttributeError"
    by (simp add: process_news_def remove_duplicates_def item_of_def)
  have "process_news ascii_db [?a, item_dated (str_of ''ChatGPT update'') (str_of ''https://b'') Null]
      = Inl TypeError"
    by (rule run) (simp add: ka published_key_def item_dated_def)
  moreover have "process_news ascii_db
      [?a, item_dated (str_of ''ChatGPT update'') (str_of ''https://b'') Missing] = Inl TypeError"
    by (rule run) (simp add: ka published_key_def item_dated_def datetime_min_def datetime_lt_def)
  moreover have "process_news ascii_db
      [?a, item_dated (str_of ''ChatGPT update'') (str_of ''https://b'')
        (Value \<lparr>wall_us = 63871200000000000, tzinfo = None\<rparr>)] = Inl TypeError"
    by (rule run) (simp add: ka published_key_def item_dated_def datetime_lt_def)
  ultimately show ?thesis using n by simp
qed

end
